theory Spec2Isabelle
  imports Complex_Main "HOL-Library.Word"
begin

unbundle bit_operations_syntax

section \<open>NetDAQ channel configuration: data model\<close>

text \<open>
  The development embeds two source files: \<^verbatim>\<open>config.py\<close>, where one class
  \<^verbatim>\<open>DAQAnalogChannel\<close> covers every analog measurement, and
  \<^verbatim>\<open>lib/config/channels/analog.py\<close>, where each analog measurement has a class of its
  own. Python integers are unbounded and are modelled by \<^typ>\<open>int\<close>; a \<^verbatim>\<open>bytes\<close>
  value is a list of 8-bit words; an exception is a value of the type \<open>error\<close>, returned
  on the left of a sum.
\<close>

type_synonym bytes = "8 word list"

datatype error = NotImplementedError | ConfigError string | ZeroDivisionError

subsection \<open>Floats\<close>

text \<open>
  A Python \<^verbatim>\<open>float\<close> is an IEEE-754 binary64 value: a finite number, one of the two
  infinities, or NaN. The two zeros compare equal and are identified. The comparison
  operators are those of Python: every ordering comparison with NaN is false, and
  \<^verbatim>\<open>!=\<close> with NaN is true.
\<close>

datatype pyfloat = Finite real | PInf | NInf | NaN

fun float_lt :: "pyfloat \<Rightarrow> pyfloat \<Rightarrow> bool" where
  "float_lt NaN _ = False"
| "float_lt _ NaN = False"
| "float_lt (Finite a) (Finite b) = (a < b)"
| "float_lt PInf _ = False"
| "float_lt _ PInf = True"
| "float_lt NInf NInf = False"
| "float_lt NInf _ = True"
| "float_lt _ NInf = False"

definition float_gt :: "pyfloat \<Rightarrow> pyfloat \<Rightarrow> bool" where
  "float_gt a b = float_lt b a"

definition float_ne :: "pyfloat \<Rightarrow> pyfloat \<Rightarrow> bool" where
  "float_ne a b = (a = NaN \<or> b = NaN \<or> a \<noteq> b)"

definition float_le :: "pyfloat \<Rightarrow> pyfloat \<Rightarrow> bool" where
  "float_le a b = (a \<noteq> NaN \<and> b \<noteq> NaN \<and> (a = b \<or> float_lt a b))"

text \<open>
  The arithmetic operators compute the exact result and round it to the nearest binary64
  value, ties to the even significand: 53 significant bits, the exponent of the last
  place not below \<open>-1074\<close>, and an infinity when the rounded magnitude reaches
  \<open>2 ^ 1024\<close>. A float literal of the source that is no binary fraction denotes the
  rounding of its decimal value. Python's float division raises
  \<^verbatim>\<open>ZeroDivisionError\<close> when the divisor is zero.
\<close>

definition round_ties_even :: "real \<Rightarrow> int" where
  "round_ties_even x =
     (let n = \<lfloor>x\<rfloor>; r = x - of_int n
      in if r < 1 / 2 then n else if r > 1 / 2 then n + 1 else if even n then n else n + 1)"

definition binary64_round :: "real \<Rightarrow> pyfloat" where
  "binary64_round x =
     (if x = 0 then Finite 0
      else
        let e = max (\<lfloor>log 2 \<bar>x\<bar>\<rfloor> - 52) (- 1074);
            y = of_int (round_ties_even (x / 2 powr of_int e)) * 2 powr of_int e
        in if \<bar>y\<bar> \<ge> 2 ^ 1024 then (if x > 0 then PInf else NInf) else Finite y)"

fun float_sign :: "pyfloat \<Rightarrow> real" where
  "float_sign (Finite a) = sgn a"
| "float_sign PInf = 1"
| "float_sign NInf = - 1"
| "float_sign NaN = 0"

definition signed_infinity :: "real \<Rightarrow> pyfloat" where
  "signed_infinity s = (if s > 0 then PInf else NInf)"

fun float_mul :: "pyfloat \<Rightarrow> pyfloat \<Rightarrow> pyfloat" where
  "float_mul NaN _ = NaN"
| "float_mul _ NaN = NaN"
| "float_mul (Finite a) (Finite b) = binary64_round (a * b)"
| "float_mul x y =
     (if float_sign x * float_sign y = 0 then NaN
      else signed_infinity (float_sign x * float_sign y))"

fun float_sub :: "pyfloat \<Rightarrow> pyfloat \<Rightarrow> pyfloat" where
  "float_sub NaN _ = NaN"
| "float_sub _ NaN = NaN"
| "float_sub (Finite a) (Finite b) = binary64_round (a - b)"
| "float_sub (Finite a) PInf = NInf"
| "float_sub (Finite a) NInf = PInf"
| "float_sub PInf PInf = NaN"
| "float_sub PInf _ = PInf"
| "float_sub NInf NInf = NaN"
| "float_sub NInf _ = NInf"

fun float_div :: "pyfloat \<Rightarrow> pyfloat \<Rightarrow> pyfloat" where
  "float_div NaN _ = NaN"
| "float_div _ NaN = NaN"
| "float_div (Finite a) (Finite b) = binary64_round (a / b)"
| "float_div (Finite a) _ = Finite 0"
| "float_div x (Finite b) = signed_infinity (float_sign x * sgn b)"
| "float_div x y = NaN"

definition float_truediv :: "pyfloat \<Rightarrow> pyfloat \<Rightarrow> error + pyfloat" where
  "float_truediv a b = (if b = Finite 0 then Inl ZeroDivisionError else Inr (float_div a b))"

definition float_0_00374 :: pyfloat where
  "float_0_00374 = binary64_round (374 / 100000)"

definition float_0_00393 :: pyfloat where
  "float_0_00393 = binary64_round (393 / 100000)"

subsection \<open>Enumerations\<close>

text \<open>
  Modelled from the spec: the module \<^verbatim>\<open>enums\<close> is not among the sources. Each
  enumeration is a datatype whose constructors are the members that the sources and the
  specification name; where further members may exist they are kept apart by an index.
  The numeric code of a member (\<^verbatim>\<open>.value\<close>) is an opaque lookup table, supplied as a
  parameter in the record \<open>enum_values\<close>.
\<close>

datatype DAQConfigAlarm = OFF | Alarm_mode nat

datatype DAQAnalogMeasuremenType =
  MType_OFF | Ohms | Ohms_4Wire | VDC | VAC | Frequency | RTD | Thermocouple | Current

datatype DAQRange = NONE | Current_20mA | Current_100mA | Range_other nat

datatype DAQComputedMeasurementType = Average | AminusB | AminusAvg | Equation

datatype DAQConfigSpeed = SLOW | MEDIUM | FAST

datatype DAQConfigTrigger = INTERVAL | Trigger_other nat

datatype DAQConfigBits = DRIFT_CORRECTION | TRIGGER_OUT | FAHRENHEIT | TOTALIZER_DEBOUNCE

datatype DAQOhmsRange = Ohms_300 | Ohms_3k | Ohms_range_other nat

datatype DAQRTDRange = RTD_FIXED_385 | RTD_CUSTOM_385 | RTD_range_other nat

datatype DAQCurrentRange = Current_range_20mA | Current_range_100mA

record enum_values =
  alarm_value :: "DAQConfigAlarm \<Rightarrow> int"
  mtype_value :: "DAQAnalogMeasuremenType \<Rightarrow> int"
  range_value :: "DAQRange \<Rightarrow> int"
  computed_value :: "DAQComputedMeasurementType \<Rightarrow> int"
  speed_value :: "DAQConfigSpeed \<Rightarrow> int"
  trigger_value :: "DAQConfigTrigger \<Rightarrow> int"
  bits_value :: "DAQConfigBits \<Rightarrow> int"
  ohms_range_value :: "DAQOhmsRange \<Rightarrow> int"
  rtd_range_value :: "DAQRTDRange \<Rightarrow> int"
  current_range_value :: "DAQCurrentRange \<Rightarrow> int"

subsection \<open>The primitive codec\<close>

text \<open>
  Modelled from the spec: the module \<^verbatim>\<open>encoding\<close> is not among the sources. Its
  functions are external collaborators that turn an integer, a float or an optional line
  index into bytes; they are parameters of the model, collected in the record
  \<open>encoding\<close>. \<^verbatim>\<open>NULL_INTEGER\<close> is the name \<^verbatim>\<open>config.py\<close> imports and
  \<^verbatim>\<open>ZERO_INT\<close> the name \<^verbatim>\<open>analog.py\<close> imports for the zero-fill constant.
\<close>

record encoding =
  make_int :: "int \<Rightarrow> bytes"
  make_float :: "pyfloat \<Rightarrow> bytes"
  make_optional_indexed_bit :: "int option \<Rightarrow> bytes"
  NULL_INTEGER :: bytes
  ZERO_INT :: bytes

section \<open>config.py\<close>

subsection \<open>DAQChannel\<close>

record DAQChannel =
  use_channel_as_alarm_trigger :: bool
  alarm1_mode :: DAQConfigAlarm
  alarm2_mode :: DAQConfigAlarm
  alarm1_level :: pyfloat
  alarm2_level :: pyfloat
  alarm1_digital :: "int option"
  alarm2_digital :: "int option"
  mxab_multuplier :: pyfloat
  mxab_offset :: pyfloat

text \<open>
  \<^verbatim>\<open>alarm_bits\<close> starts from the trigger flag and ORs the two shifted mode codes
  into it, one assignment after the other.
\<close>

definition alarm_bits :: "enum_values \<Rightarrow> 'a DAQChannel_scheme \<Rightarrow> int" where
  "alarm_bits ev c =
     (let result = (if use_channel_as_alarm_trigger c then 0x01 else 0x00);
          result = result OR push_bit 1 (alarm_value ev (alarm1_mode c));
          result = result OR push_bit 3 (alarm_value ev (alarm2_mode c))
      in result)"

definition write_common_trailer :: "encoding \<Rightarrow> enum_values \<Rightarrow> 'a DAQChannel_scheme \<Rightarrow> bytes" where
  "write_common_trailer cd ev c =
     make_int cd (alarm_bits ev c) @
     make_float cd (alarm1_level c) @
     make_float cd (alarm2_level c) @
     make_optional_indexed_bit cd (alarm1_digital c) @
     make_optional_indexed_bit cd (alarm2_digital c) @
     make_float cd (mxab_multuplier c) @
     make_float cd (mxab_offset c)"

subsection \<open>DAQAnalogChannel\<close>

record DAQAnalogChannel = DAQChannel +
  mtype :: DAQAnalogMeasuremenType
  aux1 :: pyfloat
  aux2 :: pyfloat
  open_thermocouple_detect :: bool
  range_analog :: DAQRange

definition extra_bits :: "DAQAnalogChannel \<Rightarrow> int" where
  "extra_bits c =
     (if mtype c = Ohms then 0x9000
      else if mtype c = Ohms_4Wire \<or> mtype c = RTD then 0x9001
      else if mtype c = Thermocouple then (if open_thermocouple_detect c then 0x0001 else 0x0000)
      else if mtype c = Current then (if range_analog c = Current_20mA then 0x7000 else 0x7001)
      else 0x0000)"

definition DAQAnalogChannel_write :: "encoding \<Rightarrow> enum_values \<Rightarrow> DAQAnalogChannel \<Rightarrow> bytes" where
  "DAQAnalogChannel_write cd ev c =
     make_int cd (mtype_value ev (mtype c)) @
     make_int cd (range_value ev (range_analog c)) @
     make_float cd (aux1 c) @
     make_float cd (aux2 c) @
     make_int cd (extra_bits c) @
     write_common_trailer cd ev c"

subsection \<open>Computed channels\<close>

record DAQComputedAverageChannel = DAQChannel +
  average_channel_bitmask :: int

record DAQComputedAminusBChannel = DAQChannel +
  aminusb_channel_a :: int
  aminusb_channel_b :: int

record DAQComputedAminusAvgChannel = DAQChannel +
  aminusavg_channel_a :: int
  aminusavg_channel_bitmask :: int

record DAQComputedEquationChannel = DAQChannel +
  equation :: bytes

definition DAQComputedAverageChannel_write ::
  "encoding \<Rightarrow> enum_values \<Rightarrow> DAQComputedAverageChannel \<Rightarrow> bytes" where
  "DAQComputedAverageChannel_write cd ev c =
     make_int cd (computed_value ev Average) @
     NULL_INTEGER cd @
     NULL_INTEGER cd @
     NULL_INTEGER cd @
     make_int cd (average_channel_bitmask c) @
     write_common_trailer cd ev c"

definition DAQComputedAminusBChannel_write ::
  "encoding \<Rightarrow> enum_values \<Rightarrow> DAQComputedAminusBChannel \<Rightarrow> bytes" where
  "DAQComputedAminusBChannel_write cd ev c =
     make_int cd (computed_value ev AminusB) @
     NULL_INTEGER cd @
     make_int cd (aminusb_channel_a c) @
     NULL_INTEGER cd @
     make_int cd (aminusb_channel_b c) @
     write_common_trailer cd ev c"

definition DAQComputedAminusAvgChannel_write ::
  "encoding \<Rightarrow> enum_values \<Rightarrow> DAQComputedAminusAvgChannel \<Rightarrow> bytes" where
  "DAQComputedAminusAvgChannel_write cd ev c =
     make_int cd (computed_value ev AminusB) @
     NULL_INTEGER cd @
     make_int cd (aminusavg_channel_a c) @
     NULL_INTEGER cd @
     make_int cd (aminusavg_channel_bitmask c) @
     write_common_trailer cd ev c"

definition DAQComputedEquationChannel_write_with_aux ::
  "encoding \<Rightarrow> enum_values \<Rightarrow> DAQComputedEquationChannel \<Rightarrow> int \<Rightarrow> bytes \<times> bytes" where
  "DAQComputedEquationChannel_write_with_aux cd ev c aux_offset =
     (let payload =
            make_int cd (computed_value ev Equation) @
            NULL_INTEGER cd @
            NULL_INTEGER cd @
            NULL_INTEGER cd @
            make_int cd aux_offset @
            write_common_trailer cd ev c
      in (payload, equation c))"

subsection \<open>Method dispatch\<close>

text \<open>
  None of the classes is abstract, so an object of any of them can be constructed,
  \<^verbatim>\<open>DAQChannel\<close> and \<^verbatim>\<open>DAQComputedChannel\<close> included (the latter adds nothing to
  its base). A channel object is its class together with its fields. \<open>channel_write\<close> and
  \<open>channel_write_with_aux\<close> resolve the method the way Python does: the class's own
  definition if it has one, otherwise the one inherited from \<^verbatim>\<open>DAQChannel\<close>, whose
  \<^verbatim>\<open>write\<close> raises \<^verbatim>\<open>NotImplementedError\<close> and whose \<^verbatim>\<open>write_with_aux\<close> calls
  \<^verbatim>\<open>self.write()\<close>.
\<close>

datatype channel =
    Base_obj DAQChannel
  | Analog_obj DAQAnalogChannel
  | Computed_obj DAQChannel
  | Average_obj DAQComputedAverageChannel
  | AminusB_obj DAQComputedAminusBChannel
  | AminusAvg_obj DAQComputedAminusAvgChannel
  | Equation_obj DAQComputedEquationChannel

fun channel_write :: "encoding \<Rightarrow> enum_values \<Rightarrow> channel \<Rightarrow> error + bytes" where
  "channel_write cd ev (Base_obj c) = Inl NotImplementedError"
| "channel_write cd ev (Analog_obj c) = Inr (DAQAnalogChannel_write cd ev c)"
| "channel_write cd ev (Computed_obj c) = Inl NotImplementedError"
| "channel_write cd ev (Average_obj c) = Inr (DAQComputedAverageChannel_write cd ev c)"
| "channel_write cd ev (AminusB_obj c) = Inr (DAQComputedAminusBChannel_write cd ev c)"
| "channel_write cd ev (AminusAvg_obj c) = Inr (DAQComputedAminusAvgChannel_write cd ev c)"
| "channel_write cd ev (Equation_obj c) = Inl NotImplementedError"

definition DAQChannel_write_with_aux ::
  "encoding \<Rightarrow> enum_values \<Rightarrow> channel \<Rightarrow> int \<Rightarrow> error + bytes \<times> bytes" where
  "DAQChannel_write_with_aux cd ev ch aux_offset =
     (case channel_write cd ev ch of Inl e \<Rightarrow> Inl e | Inr payload \<Rightarrow> Inr (payload, []))"

fun channel_write_with_aux :: "encoding \<Rightarrow> enum_values \<Rightarrow> channel \<Rightarrow> int \<Rightarrow> error + bytes \<times> bytes" where
  "channel_write_with_aux cd ev (Equation_obj c) aux_offset =
     Inr (DAQComputedEquationChannel_write_with_aux cd ev c aux_offset)"
| "channel_write_with_aux cd ev ch aux_offset = DAQChannel_write_with_aux cd ev ch aux_offset"

text \<open>The classes that define an encoding method of their own.\<close>

fun concrete_variant :: "channel \<Rightarrow> bool" where
  "concrete_variant (Base_obj c) = False"
| "concrete_variant (Computed_obj c) = False"
| "concrete_variant ch = True"

fun is_equation :: "channel \<Rightarrow> bool" where
  "is_equation (Equation_obj c) = True"
| "is_equation ch = False"

subsection \<open>DAQConfiguration\<close>

record DAQConfiguration =
  speed :: DAQConfigSpeed
  temperature_fahrenheit :: bool
  trigger_out :: bool
  drift_correction :: bool
  totalizer_debounce :: bool
  triggers :: "DAQConfigTrigger list"
  interval_time :: pyfloat
  alarm_time :: pyfloat
  analog_channels :: "DAQAnalogChannel list"
  computed_channels :: "channel list"

text \<open>The loop \<^verbatim>\<open>for trig in self.triggers: result |= trig.value\<close>.\<close>

fun or_triggers :: "enum_values \<Rightarrow> int \<Rightarrow> DAQConfigTrigger list \<Rightarrow> int" where
  "or_triggers ev result [] = result"
| "or_triggers ev result (trig # rest) = or_triggers ev (result OR trigger_value ev trig) rest"

definition bits :: "enum_values \<Rightarrow> DAQConfiguration \<Rightarrow> int" where
  "bits ev cfg =
     (let result = speed_value ev (speed cfg);
          result = (if drift_correction cfg \<or> speed cfg \<noteq> FAST
                    then result OR bits_value ev DRIFT_CORRECTION else result);
          result = (if trigger_out cfg then result OR bits_value ev TRIGGER_OUT else result);
          result = (if temperature_fahrenheit cfg then result OR bits_value ev FAHRENHEIT else result);
          result = (if totalizer_debounce cfg
                    then result OR bits_value ev TOTALIZER_DEBOUNCE else result)
      in or_triggers ev result (triggers cfg))"

section \<open>lib/config/channels/analog.py\<close>

subsection \<open>The base class\<close>

text \<open>
  Modelled from the spec: \<^verbatim>\<open>lib/config/channels/base.py\<close>, the base class of the
  analog variants, is not among the sources. \<^verbatim>\<open>analog.py\<close> reads its fields
  \<^verbatim>\<open>mxab_multuplier\<close> and \<^verbatim>\<open>mxab_offset\<close>, so the common fields are those of
  \<open>DAQChannel\<close>. Its \<^verbatim>\<open>encode_common_trailer\<close> writes the same seven fields as
  \<open>write_common_trailer\<close>, the last two being the effective calibration values that
  the two hooks \<^verbatim>\<open>_modified_mxab_multiplier\<close> and \<^verbatim>\<open>_modified_mxab_offset\<close> of
  the object's class return (the raw fields unless the class overrides them); the model
  takes the hooks' results as arguments.
\<close>

definition encode_common_trailer ::
  "encoding \<Rightarrow> enum_values \<Rightarrow> pyfloat \<Rightarrow> pyfloat \<Rightarrow> 'a DAQChannel_scheme \<Rightarrow> bytes" where
  "encode_common_trailer cd ev modified_mxab_multiplier modified_mxab_offset c =
     make_int cd (alarm_bits ev c) @
     make_float cd (alarm1_level c) @
     make_float cd (alarm2_level c) @
     make_optional_indexed_bit cd (alarm1_digital c) @
     make_optional_indexed_bit cd (alarm2_digital c) @
     make_float cd modified_mxab_multiplier @
     make_float cd modified_mxab_offset"

text \<open>
  A dataclass runs \<^verbatim>\<open>__post_init__\<close> at the end of construction: the object exists
  when it returns (\<open>Inr ()\<close>) and construction fails with the error it raises
  (\<open>Inl\<close>).
\<close>

subsection \<open>DAQAnalogOhmsChannel\<close>

record DAQAnalogOhmsChannel = DAQChannel +
  range_ohms :: DAQOhmsRange
  four_wire :: bool

definition DAQAnalogOhmsChannel_post_init :: "DAQAnalogOhmsChannel \<Rightarrow> error + unit" where
  "DAQAnalogOhmsChannel_post_init c =
     (if (\<not> four_wire c) \<and> (range_ohms c = Ohms_300 \<or> range_ohms c = Ohms_3k)
      then Inl (ConfigError ''2-wire ohms measurement is not supported for 300 or 3k Ohms range'')
      else Inr ())"

subsection \<open>DAQAnalogRTDChannel\<close>

record DAQAnalogRTDChannel = DAQChannel +
  range_rtd :: DAQRTDRange
  alpha :: pyfloat
  r0 :: pyfloat

definition DAQAnalogRTDChannel_post_init :: "DAQAnalogRTDChannel \<Rightarrow> error + unit" where
  "DAQAnalogRTDChannel_post_init c =
     (if float_lt (r0 c) (Finite 10) \<or> float_gt (r0 c) (Finite 1010)
      then Inl (ConfigError ''Custom RTD R0 value must be between 10 and 1010 Ohms'')
      else if range_rtd c = RTD_FIXED_385
      then (if float_ne (alpha c) (Finite 0)
            then Inl (ConfigError ''Fixed RTD does not allow for Alpha value to be set'')
            else Inr ())
      else if range_rtd c = RTD_CUSTOM_385
      then (if float_lt (alpha c) float_0_00374 \<or> float_gt (alpha c) float_0_00393
            then Inl (ConfigError ''Custom RTD Alpha value must be between 0.00374 and 0.00393'')
            else Inr ())
      else Inr ())"

subsection \<open>DAQAnalogCurrentChannel\<close>

record DAQAnalogCurrentChannel = DAQChannel +
  range_current :: DAQCurrentRange
  shunt_resistance :: pyfloat

definition DAQAnalogCurrentChannel_post_init :: "DAQAnalogCurrentChannel \<Rightarrow> error + unit" where
  "DAQAnalogCurrentChannel_post_init c =
     (if float_lt (shunt_resistance c) (Finite 10) \<or> float_gt (shunt_resistance c) (Finite 250)
      then Inl (ConfigError ''Shunt resistance must be between 10 and 250 Ohms'')
      else Inr ())"

definition DAQAnalogCurrentChannel_modified_mxab_multiplier ::
  "DAQAnalogCurrentChannel \<Rightarrow> error + pyfloat" where
  "DAQAnalogCurrentChannel_modified_mxab_multiplier c =
     (case float_truediv (Finite 1) (shunt_resistance c) of
        Inl e \<Rightarrow> Inl e
      | Inr reciprocal \<Rightarrow>
          (let modified_multiplier = float_mul (mxab_multuplier c) reciprocal;
               modified_multiplier =
                 (if range_current c = Current_range_20mA
                  then float_mul modified_multiplier (Finite 6250)
                  else modified_multiplier)
           in Inr modified_multiplier))"

definition DAQAnalogCurrentChannel_modified_mxab_offset :: "DAQAnalogCurrentChannel \<Rightarrow> pyfloat" where
  "DAQAnalogCurrentChannel_modified_mxab_offset c =
     (if range_current c = Current_range_20mA
      then float_sub (mxab_offset c) (Finite 25)
      else mxab_offset c)"

definition DAQAnalogCurrentChannel_encode_common_trailer ::
  "encoding \<Rightarrow> enum_values \<Rightarrow> DAQAnalogCurrentChannel \<Rightarrow> error + bytes" where
  "DAQAnalogCurrentChannel_encode_common_trailer cd ev c =
     (case DAQAnalogCurrentChannel_modified_mxab_multiplier c of
        Inl e \<Rightarrow> Inl e
      | Inr modified_multiplier \<Rightarrow>
          Inr (encode_common_trailer cd ev modified_multiplier
                 (DAQAnalogCurrentChannel_modified_mxab_offset c) c))"

text \<open>The local variable \<^verbatim>\<open>extra_bits\<close> of \<^verbatim>\<open>DAQAnalogCurrentChannel.encode\<close>.\<close>

definition DAQAnalogCurrentChannel_extra_bits :: "DAQAnalogCurrentChannel \<Rightarrow> int" where
  "DAQAnalogCurrentChannel_extra_bits c =
     (let extra_bits = 0x7000;
          extra_bits =
            (if range_current c = Current_range_100mA then extra_bits OR 0x0001 else extra_bits)
      in extra_bits)"

definition DAQAnalogCurrentChannel_encode ::
  "encoding \<Rightarrow> enum_values \<Rightarrow> DAQAnalogCurrentChannel \<Rightarrow> error + bytes" where
  "DAQAnalogCurrentChannel_encode cd ev c =
     (case DAQAnalogCurrentChannel_encode_common_trailer cd ev c of
        Inl e \<Rightarrow> Inl e
      | Inr trailer \<Rightarrow>
          Inr (make_int cd (mtype_value ev Current) @
               make_int cd (current_range_value ev (range_current c)) @
               make_float cd (shunt_resistance c) @
               ZERO_INT cd @
               make_int cd (DAQAnalogCurrentChannel_extra_bits c) @
               trailer))"

section \<open>Sample inputs\<close>

text \<open>
  The dataclass defaults of \<^verbatim>\<open>config.py\<close>, and one sample instance of the external
  tables: a codec that writes an integer as four big-endian bytes and sample numeric
  codes. The samples serve to evaluate the model at concrete inputs; the general
  theorems hold for every codec and every code table.
\<close>

definition DAQChannel_defaults :: DAQChannel where
  "DAQChannel_defaults =
     \<lparr>use_channel_as_alarm_trigger = True, alarm1_mode = OFF, alarm2_mode = OFF,
      alarm1_level = Finite 0, alarm2_level = Finite 0,
      alarm1_digital = None, alarm2_digital = None,
      mxab_multuplier = Finite 1, mxab_offset = Finite 0\<rparr>"

definition DAQComputedEquationChannel_defaults :: DAQComputedEquationChannel where
  "DAQComputedEquationChannel_defaults =
     \<lparr>use_channel_as_alarm_trigger = True, alarm1_mode = OFF, alarm2_mode = OFF,
      alarm1_level = Finite 0, alarm2_level = Finite 0,
      alarm1_digital = None, alarm2_digital = None,
      mxab_multuplier = Finite 1, mxab_offset = Finite 0,
      equation = []\<rparr>"

definition DAQConfiguration_defaults :: DAQConfiguration where
  "DAQConfiguration_defaults =
     \<lparr>speed = SLOW, temperature_fahrenheit = False, trigger_out = False,
      drift_correction = True, totalizer_debounce = True, triggers = [INTERVAL],
      interval_time = Finite 1, alarm_time = Finite 1,
      analog_channels = [], computed_channels = []\<rparr>"

definition sample_make_int :: "int \<Rightarrow> bytes" where
  "sample_make_int i =
     [word_of_int (drop_bit 24 i), word_of_int (drop_bit 16 i),
      word_of_int (drop_bit 8 i), word_of_int i]"

definition sample_encoding :: encoding where
  "sample_encoding =
     \<lparr>make_int = sample_make_int,
      make_float = (\<lambda>x. case x of Finite r \<Rightarrow> sample_make_int \<lfloor>r\<rfloor> | _ \<Rightarrow> [255, 255, 255, 255]),
      make_optional_indexed_bit =
        (\<lambda>b. case b of None \<Rightarrow> [0, 0, 0, 0] | Some n \<Rightarrow> sample_make_int (push_bit (nat n) 1)),
      NULL_INTEGER = [0, 0, 0, 0],
      ZERO_INT = [0, 0, 0, 0]\<rparr>"

definition sample_values :: enum_values where
  "sample_values =
     \<lparr>alarm_value = (\<lambda>a. case a of OFF \<Rightarrow> 0 | Alarm_mode n \<Rightarrow> 1 + int n),
      mtype_value =
        (\<lambda>m. case m of MType_OFF \<Rightarrow> 0 | Ohms \<Rightarrow> 1 | Ohms_4Wire \<Rightarrow> 2 | VDC \<Rightarrow> 3 | VAC \<Rightarrow> 4
           | Frequency \<Rightarrow> 5 | RTD \<Rightarrow> 6 | Thermocouple \<Rightarrow> 7 | Current \<Rightarrow> 8),
      range_value =
        (\<lambda>r. case r of NONE \<Rightarrow> 0 | Current_20mA \<Rightarrow> 1 | Current_100mA \<Rightarrow> 2
           | Range_other n \<Rightarrow> 3 + int n),
      computed_value = (\<lambda>t. case t of Average \<Rightarrow> 1 | AminusB \<Rightarrow> 2 | AminusAvg \<Rightarrow> 3 | Equation \<Rightarrow> 4),
      speed_value = (\<lambda>s. case s of SLOW \<Rightarrow> 0 | MEDIUM \<Rightarrow> 1 | FAST \<Rightarrow> 2),
      trigger_value = (\<lambda>t. case t of INTERVAL \<Rightarrow> 0x40 | Trigger_other n \<Rightarrow> push_bit (7 + n) 1),
      bits_value =
        (\<lambda>b. case b of DRIFT_CORRECTION \<Rightarrow> 0x04 | TRIGGER_OUT \<Rightarrow> 0x08 | FAHRENHEIT \<Rightarrow> 0x10
           | TOTALIZER_DEBOUNCE \<Rightarrow> 0x20),
      ohms_range_value = (\<lambda>r. case r of Ohms_300 \<Rightarrow> 1 | Ohms_3k \<Rightarrow> 2 | Ohms_range_other n \<Rightarrow> 3 + int n),
      rtd_range_value =
        (\<lambda>r. case r of RTD_FIXED_385 \<Rightarrow> 1 | RTD_CUSTOM_385 \<Rightarrow> 2 | RTD_range_other n \<Rightarrow> 3 + int n),
      current_range_value = (\<lambda>r. case r of Current_range_20mA \<Rightarrow> 1 | Current_range_100mA \<Rightarrow> 2)\<rparr>"

text \<open>
  Sample objects of the analog classes, with the common fields at the defaults of
  \<^verbatim>\<open>DAQChannel\<close> unless given.
\<close>

definition sample_ohms :: "DAQOhmsRange \<Rightarrow> bool \<Rightarrow> DAQAnalogOhmsChannel" where
  "sample_ohms r fw =
     \<lparr>use_channel_as_alarm_trigger = True, alarm1_mode = OFF, alarm2_mode = OFF,
      alarm1_level = Finite 0, alarm2_level = Finite 0,
      alarm1_digital = None, alarm2_digital = None,
      mxab_multuplier = Finite 1, mxab_offset = Finite 0,
      range_ohms = r, four_wire = fw\<rparr>"

definition sample_rtd :: "DAQRTDRange \<Rightarrow> pyfloat \<Rightarrow> pyfloat \<Rightarrow> DAQAnalogRTDChannel" where
  "sample_rtd r a r_0 =
     \<lparr>use_channel_as_alarm_trigger = True, alarm1_mode = OFF, alarm2_mode = OFF,
      alarm1_level = Finite 0, alarm2_level = Finite 0,
      alarm1_digital = None, alarm2_digital = None,
      mxab_multuplier = Finite 1, mxab_offset = Finite 0,
      range_rtd = r, alpha = a, r0 = r_0\<rparr>"

definition sample_current :: "DAQCurrentRange \<Rightarrow> pyfloat \<Rightarrow> pyfloat \<Rightarrow> pyfloat \<Rightarrow> DAQAnalogCurrentChannel" where
  "sample_current r multiplier offset shunt =
     \<lparr>use_channel_as_alarm_trigger = True, alarm1_mode = OFF, alarm2_mode = OFF,
      alarm1_level = Finite 0, alarm2_level = Finite 0,
      alarm1_digital = None, alarm2_digital = None,
      mxab_multuplier = multiplier, mxab_offset = offset,
      range_current = r, shunt_resistance = shunt\<rparr>"

definition sample_analog :: "DAQAnalogMeasuremenType \<Rightarrow> DAQRange \<Rightarrow> DAQAnalogChannel" where
  "sample_analog m r =
     \<lparr>use_channel_as_alarm_trigger = True, alarm1_mode = OFF, alarm2_mode = OFF,
      alarm1_level = Finite 0, alarm2_level = Finite 0,
      alarm1_digital = None, alarm2_digital = None,
      mxab_multuplier = Finite 1, mxab_offset = Finite 0,
      mtype = m, aux1 = Finite 0, aux2 = Finite 0, open_thermocouple_detect = True,
      range_analog = r\<rparr>"

section \<open>Properties\<close>

subsection \<open>Bit-level facts about the configuration bitfield\<close>

lemma or_triggers_bit:
  "bit (or_triggers ev r ts) n \<longleftrightarrow> bit r n \<or> (\<exists>t\<in>set ts. bit (trigger_value ev t) n)"
  by (induction ts arbitrary: r) (auto simp: bit_or_iff)

lemma or_triggers_set:
  assumes "set ts = set ts'"
  shows "or_triggers ev r ts = or_triggers ev r ts'"
proof (rule bit_eqI)
  fix n
  show "bit (or_triggers ev r ts) n = bit (or_triggers ev r ts') n"
    unfolding or_triggers_bit assms ..
qed

lemma bits_bit:
  "bit (bits ev cfg) n \<longleftrightarrow>
     bit (speed_value ev (speed cfg)) n
   \<or> ((drift_correction cfg \<or> speed cfg \<noteq> FAST) \<and> bit (bits_value ev DRIFT_CORRECTION) n)
   \<or> (trigger_out cfg \<and> bit (bits_value ev TRIGGER_OUT) n)
   \<or> (temperature_fahrenheit cfg \<and> bit (bits_value ev FAHRENHEIT) n)
   \<or> (totalizer_debounce cfg \<and> bit (bits_value ev TOTALIZER_DEBOUNCE) n)
   \<or> (\<exists>t\<in>set (triggers cfg). bit (trigger_value ev t) n)"
  unfolding bits_def Let_def or_triggers_bit
  by (auto simp: bit_or_iff)

lemma and_eq_self_iff: "(x AND d = d) \<longleftrightarrow> (\<forall>n. bit d n \<longrightarrow> bit x n)" for x d :: int
  by (auto simp: bit_eq_iff bit_and_iff)

lemma and_eq_zero_iff: "(y AND d = 0) \<longleftrightarrow> (\<forall>n. \<not> (bit y n \<and> bit d n))" for y d :: int
  by (auto simp: bit_eq_iff bit_and_iff)

lemma ne_zero_iff: "d \<noteq> 0 \<longleftrightarrow> (\<exists>n. bit d n)" for d :: int
  by (auto simp: bit_eq_iff)

subsection \<open>The channel base contract\<close>

text \<open>
  C3. For every channel, \<^verbatim>\<open>alarm_bits()\<close> is the bitwise OR of the trigger flag
  (1 when \<^verbatim>\<open>use_channel_as_alarm_trigger\<close> is set, else 0), the code of
  \<^verbatim>\<open>alarm1_mode\<close> shifted left by 1 and the code of \<^verbatim>\<open>alarm2_mode\<close>
  shifted left by 3.
\<close>

theorem alarm_bits_or_of_fields:
  "alarm_bits ev c =
     (if use_channel_as_alarm_trigger c then 1 else 0)
       OR push_bit 1 (alarm_value ev (alarm1_mode c))
       OR push_bit 3 (alarm_value ev (alarm2_mode c))"
  by (simp add: alarm_bits_def Let_def or.assoc)

text \<open>
  C2. For every channel of \<^verbatim>\<open>config.py\<close>, the common trailer is the concatenation,
  in this order, of \<^verbatim>\<open>alarm_bits()\<close> as an int, \<^verbatim>\<open>alarm1_level\<close> and
  \<^verbatim>\<open>alarm2_level\<close> as floats, the optional indexed bits of \<^verbatim>\<open>alarm1_digital\<close>
  and \<^verbatim>\<open>alarm2_digital\<close>, and the calibration multiplier and offset as floats. No
  class of \<^verbatim>\<open>config.py\<close> overrides the calibration, so the effective values are the
  raw fields \<^verbatim>\<open>mxab_multuplier\<close> and \<^verbatim>\<open>mxab_offset\<close>.
\<close>

theorem write_common_trailer_layout:
  "write_common_trailer cd ev c =
     make_int cd (alarm_bits ev c) @
     make_float cd (alarm1_level c) @
     make_float cd (alarm2_level c) @
     make_optional_indexed_bit cd (alarm1_digital c) @
     make_optional_indexed_bit cd (alarm2_digital c) @
     make_float cd (mxab_multuplier c) @
     make_float cd (mxab_offset c)"
  by (simp add: write_common_trailer_def)

subsection \<open>Encoding never fails, except where no encoding is defined\<close>

text \<open>
  C1, as the specification states it, fails: \<^verbatim>\<open>DAQComputedEquationChannel\<close> defines
  \<^verbatim>\<open>write_with_aux\<close> only, so \<^verbatim>\<open>write()\<close> on a constructed Equation channel is
  the inherited \<^verbatim>\<open>DAQChannel.write\<close>, which raises \<^verbatim>\<open>NotImplementedError\<close>.
\<close>

theorem equation_write_raises:
  "channel_write sample_encoding sample_values (Equation_obj DAQComputedEquationChannel_defaults)
     = Inl NotImplementedError"
  by simp

text \<open>
  C1, amended. For every channel object whose class defines an encoding method (Analog,
  Average, A-B, A-avg, Equation), \<^verbatim>\<open>write_with_aux\<close> returns a pair of payloads and
  never raises; on the Equation channel it does so through its own override, without
  calling \<^verbatim>\<open>write()\<close>. \<^verbatim>\<open>write()\<close> returns a payload on exactly the classes
  other than Equation, and raises \<^verbatim>\<open>NotImplementedError\<close> on the Equation channel.
\<close>

theorem write_with_aux_total:
  assumes "concrete_variant ch"
  shows "(\<exists>payload aux. channel_write_with_aux cd ev ch aux_offset = Inr (payload, aux))
       \<and> ((\<exists>payload. channel_write cd ev ch = Inr payload) \<longleftrightarrow> \<not> is_equation ch)
       \<and> ((channel_write cd ev ch = Inl NotImplementedError) \<longleftrightarrow> is_equation ch)"
  using assms
  by (cases ch)
    (simp_all add: DAQChannel_write_with_aux_def DAQComputedEquationChannel_write_with_aux_def
      Let_def)

theorem write_with_aux_total_witness:
  "concrete_variant (Equation_obj DAQComputedEquationChannel_defaults)
   \<and> (\<exists>payload aux.
         channel_write_with_aux sample_encoding sample_values
           (Equation_obj DAQComputedEquationChannel_defaults) 0 = Inr (payload, aux))
   \<and> channel_write sample_encoding sample_values
         (Equation_obj DAQComputedEquationChannel_defaults) = Inl NotImplementedError"
  using write_with_aux_total
    [of "Equation_obj DAQComputedEquationChannel_defaults" sample_encoding sample_values 0]
  by simp

subsection \<open>The Equation channel\<close>

text \<open>
  C9. For every Equation channel and every aux offset, \<^verbatim>\<open>write_with_aux(aux_offset)\<close>
  returns a pair: the main payload is the Equation type code, three zero-fill slots
  (\<^verbatim>\<open>NULL_INTEGER\<close>), the aux offset as an int and the common trailer; the auxiliary
  payload is the channel's \<^verbatim>\<open>equation\<close> bytes, unchanged.
\<close>

theorem equation_write_with_aux:
  "channel_write_with_aux cd ev (Equation_obj c) aux_offset =
     Inr (make_int cd (computed_value ev Equation) @
          NULL_INTEGER cd @ NULL_INTEGER cd @ NULL_INTEGER cd @
          make_int cd aux_offset @
          write_common_trailer cd ev c,
          equation c)"
  by (simp add: DAQComputedEquationChannel_write_with_aux_def Let_def)

subsection \<open>The device configuration bitfield\<close>

text \<open>
  C8. The drift-correction flag is present in \<^verbatim>\<open>bits()\<close> exactly when
  \<^verbatim>\<open>drift_correction\<close> is set or \<^verbatim>\<open>speed\<close> is not \<^verbatim>\<open>FAST\<close>. The numeric
  codes are an external table; the flag can be read back from the result only when its
  code is not zero and shares no bit with the other codes that \<^verbatim>\<open>bits()\<close> may OR in
  (the code of \<^verbatim>\<open>FAST\<close>, the three other flags, the codes of the triggers listed).
  "Present" means that every bit of the flag's code is set in the result.
\<close>

theorem drift_correction_bit_present_iff:
  assumes nz: "bits_value ev DRIFT_CORRECTION \<noteq> 0"
    and fast: "speed_value ev FAST AND bits_value ev DRIFT_CORRECTION = 0"
    and tout: "bits_value ev TRIGGER_OUT AND bits_value ev DRIFT_CORRECTION = 0"
    and fahr: "bits_value ev FAHRENHEIT AND bits_value ev DRIFT_CORRECTION = 0"
    and tot: "bits_value ev TOTALIZER_DEBOUNCE AND bits_value ev DRIFT_CORRECTION = 0"
    and trig: "\<forall>t\<in>set (triggers cfg). trigger_value ev t AND bits_value ev DRIFT_CORRECTION = 0"
  shows "(bits ev cfg AND bits_value ev DRIFT_CORRECTION = bits_value ev DRIFT_CORRECTION)
           \<longleftrightarrow> (drift_correction cfg \<or> speed cfg \<noteq> FAST)"
proof
  assume present: "bits ev cfg AND bits_value ev DRIFT_CORRECTION = bits_value ev DRIFT_CORRECTION"
  from nz obtain n where n: "bit (bits_value ev DRIFT_CORRECTION) n"
    by (auto simp: ne_zero_iff)
  with present have b: "bit (bits ev cfg) n"
    by (auto simp: and_eq_self_iff)
  show "drift_correction cfg \<or> speed cfg \<noteq> FAST"
  proof (rule ccontr)
    assume "\<not> (drift_correction cfg \<or> speed cfg \<noteq> FAST)"
    then have off: "\<not> drift_correction cfg" and sp: "speed cfg = FAST"
      by simp_all
    have "\<not> bit (speed_value ev FAST) n" "\<not> bit (bits_value ev TRIGGER_OUT) n"
      "\<not> bit (bits_value ev FAHRENHEIT) n" "\<not> bit (bits_value ev TOTALIZER_DEBOUNCE) n"
      using n fast tout fahr tot by (auto simp: and_eq_zero_iff)
    moreover have "\<not> bit (trigger_value ev t) n" if "t \<in> set (triggers cfg)" for t
      using n trig that by (auto simp: and_eq_zero_iff)
    ultimately have "\<not> bit (bits ev cfg) n"
      using off sp by (auto simp: bits_bit)
    with b show False by simp
  qed
next
  assume "drift_correction cfg \<or> speed cfg \<noteq> FAST"
  then show "bits ev cfg AND bits_value ev DRIFT_CORRECTION = bits_value ev DRIFT_CORRECTION"
    unfolding and_eq_self_iff bits_bit by blast
qed

theorem drift_correction_bit_present_iff_witness:
  "bits sample_values (DAQConfiguration_defaults\<lparr>speed := FAST, drift_correction := False\<rparr>)
       AND bits_value sample_values DRIFT_CORRECTION \<noteq> bits_value sample_values DRIFT_CORRECTION
   \<and> bits sample_values (DAQConfiguration_defaults\<lparr>speed := FAST, drift_correction := True\<rparr>)
       AND bits_value sample_values DRIFT_CORRECTION = bits_value sample_values DRIFT_CORRECTION
   \<and> bits sample_values (DAQConfiguration_defaults\<lparr>speed := MEDIUM, drift_correction := False\<rparr>)
       AND bits_value sample_values DRIFT_CORRECTION = bits_value sample_values DRIFT_CORRECTION"
proof -
  have h: "bits_value sample_values DRIFT_CORRECTION \<noteq> 0"
    "speed_value sample_values FAST AND bits_value sample_values DRIFT_CORRECTION = 0"
    "bits_value sample_values TRIGGER_OUT AND bits_value sample_values DRIFT_CORRECTION = 0"
    "bits_value sample_values FAHRENHEIT AND bits_value sample_values DRIFT_CORRECTION = 0"
    "bits_value sample_values TOTALIZER_DEBOUNCE AND bits_value sample_values DRIFT_CORRECTION = 0"
    by (simp_all add: sample_values_def)
  have t: "\<forall>t\<in>set (triggers (DAQConfiguration_defaults\<lparr>speed := s, drift_correction := d\<rparr>)).
      trigger_value sample_values t AND bits_value sample_values DRIFT_CORRECTION = 0" for s d
    by (simp add: sample_values_def DAQConfiguration_defaults_def)
  have absent:
    "bits sample_values (DAQConfiguration_defaults\<lparr>speed := FAST, drift_correction := False\<rparr>)
       AND bits_value sample_values DRIFT_CORRECTION \<noteq> bits_value sample_values DRIFT_CORRECTION"
    using drift_correction_bit_present_iff [OF h t] by simp
  have present_fast:
    "bits sample_values (DAQConfiguration_defaults\<lparr>speed := FAST, drift_correction := True\<rparr>)
       AND bits_value sample_values DRIFT_CORRECTION = bits_value sample_values DRIFT_CORRECTION"
    using drift_correction_bit_present_iff [OF h t] by simp
  have present_medium:
    "bits sample_values (DAQConfiguration_defaults\<lparr>speed := MEDIUM, drift_correction := False\<rparr>)
       AND bits_value sample_values DRIFT_CORRECTION = bits_value sample_values DRIFT_CORRECTION"
    using drift_correction_bit_present_iff [OF h t] by simp
  from absent present_fast present_medium show ?thesis
    by simp
qed

text \<open>
  C10. \<^verbatim>\<open>bits()\<close> depends on the \<^verbatim>\<open>triggers\<close> list only through the set of its
  entries: replacing the list by any list with the same entries, in another order or
  with entries repeated, leaves the result unchanged.
\<close>

theorem bits_triggers_set:
  assumes "set ts = set (triggers cfg)"
  shows "bits ev (cfg\<lparr>triggers := ts\<rparr>) = bits ev cfg"
proof -
  have "or_triggers ev r ts = or_triggers ev r (triggers cfg)" for r
    using assms by (rule or_triggers_set)
  then show ?thesis
    by (simp add: bits_def Let_def)
qed

theorem bits_triggers_set_witness:
  "bits sample_values
     (DAQConfiguration_defaults\<lparr>triggers := [Trigger_other 0, INTERVAL, Trigger_other 0]\<rparr>
        \<lparr>triggers := [INTERVAL, Trigger_other 0]\<rparr>)
   = bits sample_values
       (DAQConfiguration_defaults\<lparr>triggers := [Trigger_other 0, INTERVAL, Trigger_other 0]\<rparr>)
   \<and> bits sample_values
       (DAQConfiguration_defaults\<lparr>triggers := [Trigger_other 0, INTERVAL, Trigger_other 0]\<rparr>) = 0xE4"
proof -
  have "set [INTERVAL, Trigger_other 0] =
      set (triggers (DAQConfiguration_defaults\<lparr>triggers := [Trigger_other 0, INTERVAL, Trigger_other 0]\<rparr>))"
    by auto
  from bits_triggers_set [OF this, of sample_values]
  show ?thesis
    by (simp add: bits_def DAQConfiguration_defaults_def sample_values_def)
qed

subsection \<open>Evaluating float arithmetic\<close>

text \<open>
  Within a binade the rounding is to a fixed last place, which makes the rounding of a
  concrete number a computation on integers.
\<close>

lemma binary64_round_in_binade:
  assumes "x \<noteq> 0" and "2 powr of_int k \<le> \<bar>x\<bar>" and "\<bar>x\<bar> < 2 powr of_int (k + 1)"
    and "- 1022 \<le> k"
  shows "binary64_round x =
     (let y = of_int (round_ties_even (x / 2 powr of_int (k - 52))) * 2 powr of_int (k - 52)
      in if \<bar>y\<bar> \<ge> 2 ^ 1024 then (if x > 0 then PInf else NInf) else Finite y)"
proof -
  have "\<lfloor>log 2 \<bar>x\<bar>\<rfloor> = k"
    using assms by (subst floor_log_eq_powr_iff) auto
  moreover have "max (k - 52) (- 1074) = k - 52"
    using assms(4) by simp
  ultimately show ?thesis
    using assms(1) by (simp add: binary64_round_def Let_def)
qed

lemma float_0_00374_value: "float_0_00374 = Finite (8623852854459215 / 2 ^ 61)"
  unfolding float_0_00374_def
  by (subst binary64_round_in_binade [where k = "- 9"])
    (simp_all add: powr_minus powr_numeral round_ties_even_def Let_def)

lemma float_0_00393_value: "float_0_00393 = Finite (4530981513104909 / 2 ^ 60)"
  unfolding float_0_00393_def
  by (subst binary64_round_in_binade [where k = "- 8"])
    (simp_all add: powr_minus powr_numeral round_ties_even_def Let_def)

lemma binary64_round_0_00373: "binary64_round (373 / 100000) = Finite (4300397212183539 / 2 ^ 60)"
  by (subst binary64_round_in_binade [where k = "- 9"])
    (simp_all add: powr_minus powr_numeral round_ties_even_def Let_def)

lemma reciprocal_49: "binary64_round (1 / 49) = Finite (5882252574524729 / 2 ^ 58)"
  by (subst binary64_round_in_binade [where k = "- 6"])
    (simp_all add: powr_minus powr_numeral round_ties_even_def Let_def)

lemma product_49: "binary64_round (49 * (5882252574524729 / 2 ^ 58)) = Finite (9007199254740991 / 2 ^ 53)"
  by (subst binary64_round_in_binade [where k = "- 1"])
    (simp_all add: powr_minus powr_numeral round_ties_even_def Let_def)

lemma quotient_49: "binary64_round (49 / 49) = Finite 1"
  by (subst binary64_round_in_binade [where k = "0"])
    (simp_all add: powr_minus powr_numeral round_ties_even_def Let_def)

lemma float_lt_not_le:
  "a \<noteq> NaN \<Longrightarrow> b \<noteq> NaN \<Longrightarrow> float_lt a b \<longleftrightarrow> \<not> float_le b a"
  by (cases a; cases b) (auto simp: float_le_def)

lemma round_sixteenth: "binary64_round (1 / 16) = Finite (1 / 16)"
  by (subst binary64_round_in_binade [where k = "- 4"])
    (simp_all add: powr_minus powr_numeral round_ties_even_def Let_def)

lemma round_eighth: "binary64_round (2 * (1 / 16)) = Finite (1 / 8)"
  by (subst binary64_round_in_binade [where k = "- 3"])
    (simp_all add: powr_minus powr_numeral round_ties_even_def Let_def)

lemma round_scaled: "binary64_round (1 / 8 * 6250) = Finite (3125 / 4)"
  by (subst binary64_round_in_binade [where k = "9"])
    (simp_all add: powr_minus powr_numeral round_ties_even_def Let_def)

lemma round_offset: "binary64_round (0 - 25) = Finite (- 25)"
  by (subst binary64_round_in_binade [where k = "4"])
    (simp_all add: powr_minus powr_numeral round_ties_even_def Let_def)

subsection \<open>Constructor validation of the analog variants\<close>

text \<open>
  C4. Constructing an Ohms channel raises a configuration error exactly when
  \<^verbatim>\<open>four_wire\<close> is false and the range is 300 Ohms or 3 kOhms; it succeeds with
  \<^verbatim>\<open>four_wire\<close> true for those ranges, and for every other range whatever
  \<^verbatim>\<open>four_wire\<close> is.
\<close>

theorem ohms_post_init_two_wire:
  "((\<exists>msg. DAQAnalogOhmsChannel_post_init c = Inl (ConfigError msg))
      \<longleftrightarrow> \<not> four_wire c \<and> (range_ohms c = Ohms_300 \<or> range_ohms c = Ohms_3k))
   \<and> (DAQAnalogOhmsChannel_post_init c = Inr ()
      \<longleftrightarrow> four_wire c \<or> (range_ohms c \<noteq> Ohms_300 \<and> range_ohms c \<noteq> Ohms_3k))"
  by (auto simp: DAQAnalogOhmsChannel_post_init_def)

theorem ohms_post_init_two_wire_witness:
  "(\<exists>msg. DAQAnalogOhmsChannel_post_init (sample_ohms Ohms_300 False) = Inl (ConfigError msg))
   \<and> (\<exists>msg. DAQAnalogOhmsChannel_post_init (sample_ohms Ohms_3k False) = Inl (ConfigError msg))
   \<and> DAQAnalogOhmsChannel_post_init (sample_ohms Ohms_300 True) = Inr ()
   \<and> DAQAnalogOhmsChannel_post_init (sample_ohms Ohms_3k True) = Inr ()
   \<and> DAQAnalogOhmsChannel_post_init (sample_ohms (Ohms_range_other 0) False) = Inr ()"
  using ohms_post_init_two_wire [of "sample_ohms Ohms_300 False"]
    ohms_post_init_two_wire [of "sample_ohms Ohms_3k False"]
    ohms_post_init_two_wire [of "sample_ohms Ohms_300 True"]
    ohms_post_init_two_wire [of "sample_ohms Ohms_3k True"]
    ohms_post_init_two_wire [of "sample_ohms (Ohms_range_other 0) False"]
  by (simp add: sample_ohms_def)

text \<open>
  C5 fails on the code at NaN. An RTD channel whose \<^verbatim>\<open>r0\<close> is NaN is
  constructed, although NaN does not lie in the interval from 10 to 1010: both
  comparisons of the range check, \<^verbatim>\<open>r0 < 10.0\<close> and \<^verbatim>\<open>r0 > 1010.0\<close>, are
  false on NaN.
\<close>

theorem rtd_nan_r0_is_constructed:
  "DAQAnalogRTDChannel_post_init (sample_rtd RTD_FIXED_385 (Finite 0) NaN) = Inr ()
   \<and> \<not> (float_le (Finite 10) NaN \<and> float_le NaN (Finite 1010))"
  by (simp add: DAQAnalogRTDChannel_post_init_def sample_rtd_def float_gt_def float_ne_def
      float_le_def)

text \<open>
  For every \<^verbatim>\<open>r0\<close> and \<^verbatim>\<open>alpha\<close> other than NaN the validation is as specified:
  construction raises a configuration error exactly when \<^verbatim>\<open>r0\<close> lies outside
  \<open>[10, 1010]\<close>, or the range is the fixed 385 one and \<^verbatim>\<open>alpha\<close> is not zero, or
  the range is the custom 385 one and \<^verbatim>\<open>alpha\<close> lies outside
  \<open>[0.00374, 0.00393]\<close>, the bounds included.
\<close>

lemma rtd_post_init_raises_iff:
  assumes "r0 c \<noteq> NaN" and "alpha c \<noteq> NaN"
  shows "(\<exists>msg. DAQAnalogRTDChannel_post_init c = Inl (ConfigError msg)) \<longleftrightarrow>
           (\<not> (float_le (Finite 10) (r0 c) \<and> float_le (r0 c) (Finite 1010))
            \<or> (range_rtd c = RTD_FIXED_385 \<and> alpha c \<noteq> Finite 0)
            \<or> (range_rtd c = RTD_CUSTOM_385
                 \<and> \<not> (float_le float_0_00374 (alpha c) \<and> float_le (alpha c) float_0_00393)))"
proof -
  have lo: "float_lt (r0 c) (Finite 10) \<longleftrightarrow> \<not> float_le (Finite 10) (r0 c)"
    and hi: "float_gt (r0 c) (Finite 1010) \<longleftrightarrow> \<not> float_le (r0 c) (Finite 1010)"
    using assms(1) by (simp_all add: float_lt_not_le float_gt_def)
  have alo: "float_lt (alpha c) float_0_00374 \<longleftrightarrow> \<not> float_le float_0_00374 (alpha c)"
    and ahi: "float_gt (alpha c) float_0_00393 \<longleftrightarrow> \<not> float_le (alpha c) float_0_00393"
    using assms(2) by (simp_all add: float_lt_not_le float_gt_def float_0_00374_value float_0_00393_value)
  have ne: "float_ne (alpha c) (Finite 0) \<longleftrightarrow> alpha c \<noteq> Finite 0"
    using assms(2) by (simp add: float_ne_def)
  show ?thesis
    unfolding DAQAnalogRTDChannel_post_init_def lo hi alo ahi ne
    by auto
qed

lemma rtd_post_init_raises_iff_examples:
  "(\<exists>msg. DAQAnalogRTDChannel_post_init (sample_rtd RTD_FIXED_385 (Finite 0) (Finite 5)) = Inl (ConfigError msg))
   \<and> \<not> (\<exists>msg. DAQAnalogRTDChannel_post_init (sample_rtd RTD_FIXED_385 (Finite 0) (Finite 10)) = Inl (ConfigError msg))
   \<and> \<not> (\<exists>msg. DAQAnalogRTDChannel_post_init (sample_rtd RTD_FIXED_385 (Finite 0) (Finite 1010)) = Inl (ConfigError msg))
   \<and> (\<exists>msg. DAQAnalogRTDChannel_post_init (sample_rtd RTD_FIXED_385 (Finite 1) (Finite 100)) = Inl (ConfigError msg))
   \<and> \<not> (\<exists>msg. DAQAnalogRTDChannel_post_init (sample_rtd RTD_CUSTOM_385 float_0_00374 (Finite 100)) = Inl (ConfigError msg))
   \<and> \<not> (\<exists>msg. DAQAnalogRTDChannel_post_init (sample_rtd RTD_CUSTOM_385 float_0_00393 (Finite 100)) = Inl (ConfigError msg))
   \<and> (\<exists>msg. DAQAnalogRTDChannel_post_init (sample_rtd RTD_CUSTOM_385 (binary64_round (373 / 100000)) (Finite 100))
         = Inl (ConfigError msg))"
proof -
  have nn: "r0 (sample_rtd r a (Finite x)) \<noteq> NaN" for r a x
    by (simp add: sample_rtd_def)
  have an: "alpha (sample_rtd r (Finite x) r_0) \<noteq> NaN" for r x r_0
    by (simp add: sample_rtd_def)
  note v = float_0_00374_value float_0_00393_value binary64_round_0_00373
  show ?thesis
    using rtd_post_init_raises_iff [OF nn an, of RTD_FIXED_385 0 5 ]
      rtd_post_init_raises_iff [OF nn an, of RTD_FIXED_385 0 10]
      rtd_post_init_raises_iff [OF nn an, of RTD_FIXED_385 0 1010]
      rtd_post_init_raises_iff [OF nn an, of RTD_FIXED_385 1 100]
      rtd_post_init_raises_iff [OF nn an, of RTD_CUSTOM_385 "8623852854459215 / 2 ^ 61" 100]
      rtd_post_init_raises_iff [OF nn an, of RTD_CUSTOM_385 "4530981513104909 / 2 ^ 60" 100]
      rtd_post_init_raises_iff [OF nn an, of RTD_CUSTOM_385 "4300397212183539 / 2 ^ 60" 100]
    unfolding v
    by (simp add: sample_rtd_def float_le_def)
qed

subsection \<open>The Current channel\<close>

lemma valid_shunt_not_zero:
  assumes "DAQAnalogCurrentChannel_post_init c = Inr ()"
  shows "shunt_resistance c \<noteq> Finite 0"
proof
  assume "shunt_resistance c = Finite 0"
  then have "DAQAnalogCurrentChannel_post_init c \<noteq> Inr ()"
    by (simp add: DAQAnalogCurrentChannel_post_init_def)
  with assms show False by simp
qed

text \<open>
  C6, as the specification states it, fails: the code multiplies the calibration
  multiplier by the rounded reciprocal of the shunt resistance, which is not always the
  float quotient of the two. With multiplier 49.0 and shunt 49.0 on the 100 mA range the
  code returns \<open>9007199254740991 / 2 ^ 53\<close> (0.9999999999999999), while 49.0 / 49.0 is 1.0.
\<close>

theorem current_multiplier_differs_from_quotient:
  "DAQAnalogCurrentChannel_post_init
       (sample_current Current_range_100mA (Finite 49) (Finite 0) (Finite 49)) = Inr ()
   \<and> DAQAnalogCurrentChannel_modified_mxab_multiplier
       (sample_current Current_range_100mA (Finite 49) (Finite 0) (Finite 49))
       = Inr (Finite (9007199254740991 / 2 ^ 53))
   \<and> float_truediv (Finite 49) (Finite 49) = Inr (Finite 1)
   \<and> DAQAnalogCurrentChannel_modified_mxab_multiplier
       (sample_current Current_range_100mA (Finite 49) (Finite 0) (Finite 49))
       \<noteq> float_truediv
           (mxab_multuplier (sample_current Current_range_100mA (Finite 49) (Finite 0) (Finite 49)))
           (shunt_resistance (sample_current Current_range_100mA (Finite 49) (Finite 0) (Finite 49)))"
proof -
  have q: "float_truediv (Finite 49) (Finite 49) = Inr (Finite 1)"
    using quotient_49 by (simp add: float_truediv_def)
  have m: "DAQAnalogCurrentChannel_modified_mxab_multiplier
       (sample_current Current_range_100mA (Finite 49) (Finite 0) (Finite 49))
       = Inr (Finite (9007199254740991 / 2 ^ 53))"
    using reciprocal_49 product_49
    by (simp add: DAQAnalogCurrentChannel_modified_mxab_multiplier_def sample_current_def
        float_truediv_def Let_def)
  have v: "DAQAnalogCurrentChannel_post_init
       (sample_current Current_range_100mA (Finite 49) (Finite 0) (Finite 49)) = Inr ()"
    by (simp add: DAQAnalogCurrentChannel_post_init_def sample_current_def float_gt_def)
  have "mxab_multuplier (sample_current Current_range_100mA (Finite 49) (Finite 0) (Finite 49)) = Finite 49"
    "shunt_resistance (sample_current Current_range_100mA (Finite 49) (Finite 0) (Finite 49)) = Finite 49"
    by (simp_all add: sample_current_def)
  with q m v show ?thesis
    by simp
qed

text \<open>
  C6, amended. For every validly constructed Current channel the effective calibration
  multiplier is the float product of \<^verbatim>\<open>mxab_multuplier\<close> and the reciprocal
  \<^verbatim>\<open>1.0 / shunt_resistance\<close>, multiplied by 6250.0 when the 20 mA range is selected;
  the effective offset is \<^verbatim>\<open>mxab_offset - 25.0\<close> on the 20 mA range and the raw
  \<^verbatim>\<open>mxab_offset\<close> on every other range; and these two values are the last two
  fields of the trailer. The reciprocal never raises, since a validated shunt resistance
  is not zero.
\<close>

theorem current_effective_calibration:
  assumes "DAQAnalogCurrentChannel_post_init c = Inr ()"
  shows "DAQAnalogCurrentChannel_modified_mxab_multiplier c =
           Inr (if range_current c = Current_range_20mA
                then float_mul
                       (float_mul (mxab_multuplier c) (float_div (Finite 1) (shunt_resistance c)))
                       (Finite 6250)
                else float_mul (mxab_multuplier c) (float_div (Finite 1) (shunt_resistance c)))
       \<and> DAQAnalogCurrentChannel_modified_mxab_offset c =
           (if range_current c = Current_range_20mA
            then float_sub (mxab_offset c) (Finite 25)
            else mxab_offset c)
       \<and> (\<exists>multiplier.
             DAQAnalogCurrentChannel_modified_mxab_multiplier c = Inr multiplier
             \<and> DAQAnalogCurrentChannel_encode_common_trailer cd ev c =
                 Inr (make_int cd (alarm_bits ev c) @
                      make_float cd (alarm1_level c) @
                      make_float cd (alarm2_level c) @
                      make_optional_indexed_bit cd (alarm1_digital c) @
                      make_optional_indexed_bit cd (alarm2_digital c) @
                      make_float cd multiplier @
                      make_float cd (DAQAnalogCurrentChannel_modified_mxab_offset c)))"
proof -
  have "shunt_resistance c \<noteq> Finite 0"
    using assms by (rule valid_shunt_not_zero)
  then show ?thesis
    by (simp add: DAQAnalogCurrentChannel_modified_mxab_multiplier_def float_truediv_def Let_def
        DAQAnalogCurrentChannel_modified_mxab_offset_def
        DAQAnalogCurrentChannel_encode_common_trailer_def encode_common_trailer_def)
qed

theorem current_effective_calibration_witness:
  "DAQAnalogCurrentChannel_post_init
       (sample_current Current_range_20mA (Finite 2) (Finite 0) (Finite 16)) = Inr ()
   \<and> DAQAnalogCurrentChannel_modified_mxab_multiplier
       (sample_current Current_range_20mA (Finite 2) (Finite 0) (Finite 16)) = Inr (Finite (3125 / 4))
   \<and> DAQAnalogCurrentChannel_modified_mxab_offset
       (sample_current Current_range_20mA (Finite 2) (Finite 0) (Finite 16)) = Finite (- 25)"
proof -
  have v: "DAQAnalogCurrentChannel_post_init
       (sample_current Current_range_20mA (Finite 2) (Finite 0) (Finite 16)) = Inr ()"
    by (simp add: DAQAnalogCurrentChannel_post_init_def sample_current_def float_gt_def)
  from current_effective_calibration [OF v, of sample_encoding sample_values] v
  show ?thesis
    using round_sixteenth round_eighth round_scaled round_offset
    by (simp add: sample_current_def)
qed

text \<open>
  C7. For a Current channel the extra-bits field of the main payload is \<open>0x7000\<close>,
  with the low bit \<open>0x0001\<close> set as well exactly when the 100 mA range is selected.
  This holds for \<^verbatim>\<open>DAQAnalogCurrentChannel.encode\<close> on either of its ranges, and for
  \<^verbatim>\<open>extra_bits()\<close> of \<^verbatim>\<open>config.py\<close> on a channel whose \<^verbatim>\<open>mtype\<close> is
  \<^verbatim>\<open>Current\<close> and whose range is one of the two current ranges.
\<close>

theorem current_extra_bits_field:
  assumes "DAQAnalogCurrentChannel_post_init c = Inr ()"
    and "mtype a = Current"
    and "range_analog a = Current_20mA \<or> range_analog a = Current_100mA"
  shows "DAQAnalogCurrentChannel_extra_bits c =
           0x7000 OR (if range_current c = Current_range_100mA then 0x0001 else 0x0000)
       \<and> (\<exists>trailer.
             DAQAnalogCurrentChannel_encode cd ev c =
               Inr (make_int cd (mtype_value ev Current) @
                    make_int cd (current_range_value ev (range_current c)) @
                    make_float cd (shunt_resistance c) @
                    ZERO_INT cd @
                    make_int cd
                      (0x7000 OR (if range_current c = Current_range_100mA then 0x0001 else 0x0000)) @
                    trailer))
       \<and> extra_bits a = 0x7000 OR (if range_analog a = Current_100mA then 0x0001 else 0x0000)
       \<and> DAQAnalogChannel_write cd ev a =
           make_int cd (mtype_value ev Current) @
           make_int cd (range_value ev (range_analog a)) @
           make_float cd (aux1 a) @
           make_float cd (aux2 a) @
           make_int cd (0x7000 OR (if range_analog a = Current_100mA then 0x0001 else 0x0000)) @
           write_common_trailer cd ev a"
proof -
  have nz: "shunt_resistance c \<noteq> Finite 0"
    using assms(1) by (rule valid_shunt_not_zero)
  have variant: "DAQAnalogCurrentChannel_extra_bits c =
      0x7000 OR (if range_current c = Current_range_100mA then 0x0001 else 0x0000)"
    by (simp add: DAQAnalogCurrentChannel_extra_bits_def Let_def)
  have enc: "\<exists>trailer.
             DAQAnalogCurrentChannel_encode cd ev c =
               Inr (make_int cd (mtype_value ev Current) @
                    make_int cd (current_range_value ev (range_current c)) @
                    make_float cd (shunt_resistance c) @
                    ZERO_INT cd @
                    make_int cd
                      (0x7000 OR (if range_current c = Current_range_100mA then 0x0001 else 0x0000)) @
                    trailer)"
    unfolding variant [symmetric] using nz
    by (simp add: DAQAnalogCurrentChannel_encode_def DAQAnalogCurrentChannel_encode_common_trailer_def
        DAQAnalogCurrentChannel_modified_mxab_multiplier_def float_truediv_def Let_def)
  have mono: "extra_bits a = 0x7000 OR (if range_analog a = Current_100mA then 0x0001 else 0x0000)"
    using assms(2,3) by (auto simp: extra_bits_def)
  have wr: "DAQAnalogChannel_write cd ev a =
           make_int cd (mtype_value ev Current) @
           make_int cd (range_value ev (range_analog a)) @
           make_float cd (aux1 a) @
           make_float cd (aux2 a) @
           make_int cd (0x7000 OR (if range_analog a = Current_100mA then 0x0001 else 0x0000)) @
           write_common_trailer cd ev a"
    unfolding mono [symmetric] using assms(2) by (simp add: DAQAnalogChannel_write_def)
  from variant enc mono wr show ?thesis
    by blast
qed

theorem current_extra_bits_field_witness:
  "DAQAnalogCurrentChannel_extra_bits
       (sample_current Current_range_100mA (Finite 1) (Finite 0) (Finite 16)) = 0x7001
   \<and> DAQAnalogCurrentChannel_extra_bits
       (sample_current Current_range_20mA (Finite 1) (Finite 0) (Finite 16)) = 0x7000
   \<and> extra_bits (sample_analog Current Current_100mA) = 0x7001
   \<and> extra_bits (sample_analog Current Current_20mA) = 0x7000"
proof -
  have v: "DAQAnalogCurrentChannel_post_init
       (sample_current r (Finite 1) (Finite 0) (Finite 16)) = Inr ()" for r
    by (simp add: DAQAnalogCurrentChannel_post_init_def sample_current_def float_gt_def)
  have m: "mtype (sample_analog Current r) = Current" for r
    by (simp add: sample_analog_def)
  have r1: "range_analog (sample_analog Current Current_100mA) = Current_20mA
      \<or> range_analog (sample_analog Current Current_100mA) = Current_100mA"
    and r2: "range_analog (sample_analog Current Current_20mA) = Current_20mA
      \<or> range_analog (sample_analog Current Current_20mA) = Current_100mA"
    by (simp_all add: sample_analog_def)
  from current_extra_bits_field [OF v m r1, of Current_range_100mA sample_encoding sample_values]
    current_extra_bits_field [OF v m r2, of Current_range_20mA sample_encoding sample_values]
  show ?thesis
    by (simp add: sample_current_def sample_analog_def)
qed

end
